theory Spec2Isabelle
  imports Complex_Main "HOL-Library.Word"
begin

section \<open>The C++ type double: IEEE 754 binary64\<close>

text \<open>
  The program stores and adds values of the C++ type \<^verbatim>\<open>double\<close>. A double is a
  sign bit, an 11-bit biased exponent and a 52-bit fraction. Exponent 2047 encodes the
  infinities (fraction 0) and the NaNs (fraction not 0); exponent 0 encodes the zeros and
  the subnormal numbers. Equality of two values of this type is identity of the bit
  pattern; the comparison \<^verbatim>\<open>==\<close> of C++ is \<open>feq\<close> below.
\<close>

datatype double = Double (sign: bool) (exponent: "11 word") (fraction: "52 word")

definition is_nan :: "double \<Rightarrow> bool" where
  "is_nan d = (exponent d = 2047 \<and> fraction d \<noteq> 0)"

definition is_inf :: "double \<Rightarrow> bool" where
  "is_inf d = (exponent d = 2047 \<and> fraction d = 0)"

definition is_zero :: "double \<Rightarrow> bool" where
  "is_zero d = (exponent d = 0 \<and> fraction d = 0)"

definition pos_zero :: double where
  "pos_zero = Double False 0 0"

definition neg_zero :: double where
  "neg_zero = Double True 0 0"

text \<open>
  The NaN that an invalid operation produces on x86-64, \<^verbatim>\<open>0xFFF8000000000000\<close>, and
  the quieting of a NaN operand: the top bit of the fraction is set, sign and payload stay.
\<close>

definition quiet_nan :: double where
  "quiet_nan = Double True 2047 (2 ^ 51)"

definition quieted :: "double \<Rightarrow> double" where
  "quieted d = Double (sign d) 2047 (or (fraction d) (2 ^ 51))"

text \<open>
  Every finite double is a whole number of units of \<open>2 ^ -1074\<close> (the smallest
  subnormal); \<open>units\<close> is the magnitude in these units.
\<close>

definition units :: "double \<Rightarrow> nat" where
  "units d = (if exponent d = 0 then unat (fraction d)
              else (2 ^ 52 + unat (fraction d)) * 2 ^ (unat (exponent d) - 1))"

definition signed_units :: "double \<Rightarrow> int" where
  "signed_units d = (if sign d then - int (units d) else int (units d))"

definition valof :: "double \<Rightarrow> real" where
  "valof d = real_of_int (signed_units d) / 2 ^ 1074"

text \<open>The low 63 bits of a double as a number, and back.\<close>

definition magnitude :: "double \<Rightarrow> nat" where
  "magnitude d = unat (exponent d) * 2 ^ 52 + unat (fraction d)"

definition inf_bits :: nat where
  "inf_bits = 2047 * 2 ^ 52"

definition mk_double :: "bool \<Rightarrow> nat \<Rightarrow> double" where
  "mk_double s b = Double s (of_nat (b div 2 ^ 52)) (of_nat (b mod 2 ^ 52))"

text \<open>The comparison \<^verbatim>\<open>==\<close> on doubles: a NaN equals nothing, the two zeros are equal.\<close>

definition feq :: "double \<Rightarrow> double \<Rightarrow> bool" where
  "feq x y = (\<not> is_nan x \<and> \<not> is_nan y \<and> (x = y \<or> (is_zero x \<and> is_zero y)))"

subsection \<open>Rounding to nearest, ties to even\<close>

fun bit_length :: "nat \<Rightarrow> nat" where
  "bit_length n = (if n = 0 then 0 else Suc (bit_length (n div 2)))"

declare bit_length.simps [simp del]

text \<open>\<open>rne n d\<close> is the integer nearest to \<open>n / d\<close>, the even one of two at equal distance.\<close>

definition rne :: "nat \<Rightarrow> nat \<Rightarrow> nat" where
  "rne n d = (let q = n div d; r = n mod d in
              if 2 * r < d then q
              else if d < 2 * r then q + 1
              else if even q then q else q + 1)"

text \<open>
  \<open>round_mag n d\<close> is the magnitude (low 63 bits) of the double nearest to the
  non-negative number \<open>n / d\<close> units. Below \<open>2 ^ 53\<close> units the doubles are one unit
  apart and the bit pattern is the number of units itself; above, a number of bit length
  \<open>53 + sh\<close> keeps its 53 leading bits, and the carry of a rounding up to \<open>2 ^ 53\<close> runs
  into the exponent field as it should. A result at or beyond the bit pattern of infinity
  is infinity.
\<close>

definition round_mag :: "nat \<Rightarrow> nat \<Rightarrow> nat" where
  "round_mag n d = (let sh = bit_length (n div d) - 53;
                        b = sh * 2 ^ 52 + rne n (d * 2 ^ sh)
                    in if inf_bits \<le> b then inf_bits else b)"

subsection \<open>The operations the program uses\<close>

text \<open>
  Addition and division of doubles in the default rounding mode. A NaN operand gives a
  NaN, and so does an invalid operation (\<open>inf - inf\<close>, \<open>0 / 0\<close>, \<open>inf / inf\<close>). IEEE 754
  leaves the sign and the payload of that NaN open; the model follows the x86-64
  instructions: a NaN operand comes back quieted (the left one when both are NaNs), an
  invalid operation gives \<open>quiet_nan\<close>. The claims below use only that the result is a
  NaN. An exact sum of zero is \<open>+0\<close>, unless both operands are \<open>-0\<close>.
\<close>

definition fadd :: "double \<Rightarrow> double \<Rightarrow> double" where
  "fadd x y =
     (if is_nan x then quieted x
      else if is_nan y then quieted y
      else if is_inf x then (if is_inf y \<and> sign x \<noteq> sign y then quiet_nan else x)
      else if is_inf y then y
      else let i = signed_units x + signed_units y in
           if i = 0 then (if sign x \<and> sign y then neg_zero else pos_zero)
           else mk_double (i < 0) (round_mag (nat \<bar>i\<bar>) 1))"

definition fdiv :: "double \<Rightarrow> double \<Rightarrow> double" where
  "fdiv x y =
     (if is_nan x then quieted x
      else if is_nan y then quieted y
      else if is_inf x then (if is_inf y then quiet_nan else mk_double (sign x \<noteq> sign y) inf_bits)
      else if is_inf y then mk_double (sign x \<noteq> sign y) 0
      else if is_zero y then (if is_zero x then quiet_nan else mk_double (sign x \<noteq> sign y) inf_bits)
      else mk_double (sign x \<noteq> sign y) (round_mag (units x * 2 ^ 1074) (units y)))"

text \<open>The conversion of a \<^verbatim>\<open>size_t\<close> to double, and the value of a decimal literal \<open>p / q\<close>.\<close>

definition double_of_nat :: "nat \<Rightarrow> double" where
  "double_of_nat n = mk_double False (round_mag (n * 2 ^ 1074) 1)"

definition double_lit :: "nat \<Rightarrow> nat \<Rightarrow> double" where
  "double_lit p q = mk_double False (round_mag (p * 2 ^ 1074) q)"

section \<open>The program\<close>

subsection \<open>Class WeatherMonitor\<close>

record WeatherMonitor =
  location :: string
  temperature :: double
  humidity :: double
  pressure :: double

text \<open>
  The console: the sequence of insertions into \<^verbatim>\<open>cout\<close>, in order. An inserted
  double is kept as the value; its decimal formatting is not modelled.
\<close>

datatype out_item = Str string | Num double | Endl

type_synonym console = "out_item list"

text \<open>The degree sign of the source text, as its two bytes in UTF-8.\<close>

definition degree :: string where
  "degree = [CHR 0xC2, CHR 0xB0]"

text \<open>The constructor \<^verbatim>\<open>WeatherMonitor(string loc)\<close>; the literal \<^verbatim>\<open>0.0\<close> is \<open>+0\<close>.\<close>

definition WeatherMonitor :: "string \<Rightarrow> WeatherMonitor" where
  "WeatherMonitor loc =
     \<lparr>location = loc, temperature = pos_zero, humidity = pos_zero, pressure = pos_zero\<rparr>"

text \<open>
  A method takes the object (and the console, when it prints) and returns them as they are
  after the call.
\<close>

definition update_weather ::
  "double \<Rightarrow> double \<Rightarrow> double \<Rightarrow> WeatherMonitor \<times> console \<Rightarrow> WeatherMonitor \<times> console" where
  "update_weather temp hum pres st =
     (case st of (this, cout) \<Rightarrow>
        let this = this\<lparr>temperature := temp\<rparr>;
            this = this\<lparr>humidity := hum\<rparr>;
            this = this\<lparr>pressure := pres\<rparr>;
            cout = cout @ [Str ''Weather updated for '', Str (location this),
                           Str '': Temp='', Num (temperature this),
                           Str (degree @ ''C, Humidity=''), Num (humidity this),
                           Str ''%, Pressure='', Num (pressure this), Str ''hPa'', Endl]
        in (this, cout))"

definition display_weather :: "WeatherMonitor \<times> console \<Rightarrow> WeatherMonitor \<times> console" where
  "display_weather st =
     (case st of (this, cout) \<Rightarrow>
        let cout = cout @ [Str ''Current weather in '', Str (location this), Str '':'', Endl];
            cout = cout @ [Str ''Temperature: '', Num (temperature this), Str (degree @ ''C''), Endl];
            cout = cout @ [Str ''Humidity: '', Num (humidity this), Str ''%'', Endl];
            cout = cout @ [Str ''Pressure: '', Num (pressure this), Str '' hPa'', Endl]
        in (this, cout))"

definition get_temperature :: "WeatherMonitor \<Rightarrow> double \<times> WeatherMonitor" where
  "get_temperature this = (temperature this, this)"

subsection \<open>The aggregator\<close>

text \<open>
  The range-for loop of \<^verbatim>\<open>calculate_average_temperature\<close> over the vector it got by
  reference: the variable \<^verbatim>\<open>total\<close> so far and the elements still to visit; it returns the final total
  and the elements as the calls left them.
\<close>

fun sum_loop :: "double \<Rightarrow> WeatherMonitor list \<Rightarrow> double \<times> WeatherMonitor list" where
  "sum_loop tot [] = (tot, [])"
| "sum_loop tot (monitor # rest) =
     (case get_temperature monitor of (t, monitor') \<Rightarrow>
        case sum_loop (fadd tot t) rest of (tot', rest') \<Rightarrow> (tot', monitor' # rest'))"

text \<open>
  The function returns the quotient and the vector after the call. The divisor is
  \<^verbatim>\<open>monitors.size()\<close> converted to double. There is no check for an empty vector and
  no other exit than the return.
\<close>

definition calculate_average_temperature ::
  "WeatherMonitor list \<Rightarrow> double \<times> WeatherMonitor list" where
  "calculate_average_temperature monitors =
     (case sum_loop pos_zero monitors of (tot, monitors') \<Rightarrow>
        (fdiv tot (double_of_nat (length monitors')), monitors'))"

subsection \<open>The driver\<close>

text \<open>
  The state of \<^verbatim>\<open>main\<close> when it reaches the call of the aggregator: the vector of
  the two copies, and the console.
\<close>

definition main_monitors :: "WeatherMonitor list \<times> console" where
  "main_monitors =
     (let monitor1 = WeatherMonitor ''New York'';
          monitor2 = WeatherMonitor ''London'';
          cout = [];
          (monitor1, cout) = update_weather (double_lit 255 10) (double_lit 600 10) (double_lit 10132 10) (monitor1, cout);
          (monitor2, cout) = update_weather (double_lit 180 10) (double_lit 750 10) (double_lit 10085 10) (monitor2, cout);
          (monitor1, cout) = display_weather (monitor1, cout);
          (monitor2, cout) = display_weather (monitor2, cout)
      in ([monitor1, monitor2], cout))"

text \<open>\<^verbatim>\<open>main\<close>: the exit code, the value of \<^verbatim>\<open>avg_temp\<close> and the console at the end.\<close>

definition main :: "int \<times> double \<times> console" where
  "main =
     (case main_monitors of (monitors, cout) \<Rightarrow>
        case calculate_average_temperature monitors of (avg_temp, monitors) \<Rightarrow>
          let cout = cout @ [Str ''Average temperature across locations: '', Num avg_temp,
                             Str (degree @ ''C''), Endl]
          in (0, avg_temp, cout))"

subsection \<open>Sequences of calls on one station\<close>

datatype monitor_call = Update double double double | Display | GetTemperature

fun call :: "WeatherMonitor \<times> console \<Rightarrow> monitor_call \<Rightarrow> WeatherMonitor \<times> console" where
  "call st (Update t h p) = update_weather t h p st"
| "call st Display = display_weather st"
| "call (this, cout) GetTemperature = (snd (get_temperature this), cout)"

subsection \<open>The arithmetic mean, in real numbers\<close>






section \<open>Facts about rounding\<close>

subsection \<open>Bit length\<close>

lemma bit_length_less: "n < 2 ^ bit_length n"
proof (induction n rule: bit_length.induct)
  case (1 n)
  show ?case
  proof (cases "n = 0")
    case True
    then show ?thesis by simp
  next
    case False
    with 1 have "n div 2 < 2 ^ bit_length (n div 2)" by simp
    then have "n < 2 * 2 ^ bit_length (n div 2)" by linarith
    with False show ?thesis by (subst bit_length.simps) simp
  qed
qed

lemma bit_length_le: "n < 2 ^ k \<Longrightarrow> bit_length n \<le> k"
proof (induction n arbitrary: k rule: bit_length.induct)
  case (1 n)
  show ?case
  proof (cases "n = 0")
    case True
    then show ?thesis by (subst bit_length.simps) simp
  next
    case False
    with 1(2) obtain j where k: "k = Suc j" by (cases k) auto
    with 1(2) have "n div 2 < 2 ^ j" by simp
    with 1(1) False have "bit_length (n div 2) \<le> j" by simp
    with False k show ?thesis by (subst bit_length.simps) simp
  qed
qed

lemma bit_length_gt: "2 ^ k \<le> n \<Longrightarrow> k < bit_length n"
proof -
  assume "2 ^ k \<le> n"
  also have "n < 2 ^ bit_length n" by (rule bit_length_less)
  finally show ?thesis by simp
qed

lemma bit_length_eqI: "2 ^ k \<le> n \<Longrightarrow> n < 2 ^ Suc k \<Longrightarrow> bit_length n = Suc k"
  using bit_length_gt [of k n] bit_length_le [of n "Suc k"] by simp

subsection \<open>A number that is a double rounds to itself\<close>

lemma rne_exact: "0 < d \<Longrightarrow> rne (q * d) d = q"
  by (simp add: rne_def)

lemma unat_exponent_less: "exponent x \<noteq> 2047 \<Longrightarrow> unat (exponent x) < 2047"
proof -
  assume ne: "exponent x \<noteq> 2047"
  have "unat (exponent x) < 2 ^ 11"
    using unsigned_less [of "exponent x"] by simp
  moreover have "unat (exponent x) \<noteq> 2047"
  proof
    assume "unat (exponent x) = 2047"
    then have "of_nat (unat (exponent x)) = (of_nat 2047 :: 11 word)" by simp
    with ne show False by simp
  qed
  ultimately show ?thesis by simp
qed

lemma unat_fraction_less: "unat (fraction x) < 2 ^ 52"
  using unsigned_less [of "fraction x"] by simp

lemma unat_exponent_pos: "exponent x \<noteq> 0 \<Longrightarrow> 0 < unat (exponent x)"
  by (simp add: unat_gt_0)

lemma round_mag_exact:
  assumes fin: "exponent x \<noteq> 2047" and c: "0 < c"
  shows "round_mag (units x * c) c = magnitude x"
proof -
  define E where "E = unat (exponent x)"
  define F where "F = unat (fraction x)"
  have E: "E < 2047" using fin unat_exponent_less by (simp add: E_def)
  have F: "F < 2 ^ 52" using unat_fraction_less by (simp add: F_def)
  have mag: "magnitude x = E * 2 ^ 52 + F" by (simp add: magnitude_def E_def F_def)
  have small: "magnitude x < inf_bits"
  proof -
    have "E * 2 ^ 52 + F < E * 2 ^ 52 + 2 ^ 52" using F by simp
    also have "\<dots> = Suc E * 2 ^ 52" by simp
    also have "\<dots> \<le> 2047 * 2 ^ 52" using E by (intro mult_le_mono1) simp
    finally show ?thesis by (simp add: mag inf_bits_def)
  qed
  have quot: "units x * c div c = units x" using c by simp
  show ?thesis
  proof (cases "exponent x = 0")
    case True
    then have u: "units x = F" and E0: "E = 0" by (simp_all add: units_def F_def E_def)
    have "bit_length F \<le> 53" using F by (intro bit_length_le) simp
    then have sh: "bit_length (units x * c div c) - 53 = 0" using quot u by simp
    have "rne (F * c) c = F" using c by (rule rne_exact)
    then have "round_mag (units x * c) c = (if inf_bits \<le> F then inf_bits else F)"
      unfolding round_mag_def sh using u by (simp add: Let_def)
    with small mag E0 show ?thesis by simp
  next
    case False
    then have Epos: "0 < E" using unat_exponent_pos by (simp add: E_def)
    from False have u: "units x = (2 ^ 52 + F) * 2 ^ (E - 1)"
      by (simp add: units_def F_def E_def)
    have lo: "2 ^ (52 + (E - 1)) \<le> units x"
      unfolding u power_add by (intro mult_le_mono1) simp
    have "(2 ^ 52 + F) * 2 ^ (E - 1) < 2 ^ 53 * 2 ^ (E - 1)"
      using F by (intro mult_strict_right_mono) simp_all
    then have hi: "units x < 2 ^ Suc (52 + (E - 1))"
      unfolding u by (simp add: power_add)
    have "bit_length (units x) = Suc (52 + (E - 1))"
      using lo hi by (rule bit_length_eqI)
    then have sh: "bit_length (units x * c div c) - 53 = E - 1" using quot by simp
    have "rne ((2 ^ 52 + F) * (c * 2 ^ (E - 1))) (c * 2 ^ (E - 1)) = 2 ^ 52 + F"
      using c by (intro rne_exact) simp
    then have r: "rne (units x * c) (c * 2 ^ (E - 1)) = 2 ^ 52 + F"
      unfolding u by (simp add: mult.assoc mult.left_commute mult.commute)
    have "(E - 1) * 2 ^ 52 + (2 ^ 52 + F) = E * 2 ^ 52 + F"
      using Epos by (cases E) simp_all
    then have "round_mag (units x * c) c = (if inf_bits \<le> magnitude x then inf_bits else magnitude x)"
      unfolding round_mag_def sh Let_def r mag by simp
    with small show ?thesis by simp
  qed
qed

lemma mk_double_magnitude: "mk_double s (magnitude x) = Double s (exponent x) (fraction x)"
proof -
  have F: "unat (fraction x) < 2 ^ 52" by (rule unat_fraction_less)
  then have "magnitude x div 2 ^ 52 = unat (exponent x)"
    and "magnitude x mod 2 ^ 52 = unat (fraction x)"
    by (simp_all add: magnitude_def)
  then show ?thesis by (simp add: mk_double_def)
qed

subsection \<open>Operations with an exact result return it\<close>

lemma units_eq_0_iff: "units d = 0 \<longleftrightarrow> is_zero d"
  by (auto simp add: units_def is_zero_def unat_eq_0)

lemma finite_not_nan: "exponent d \<noteq> 2047 \<Longrightarrow> \<not> is_nan d"
  by (simp add: is_nan_def)

lemma finite_not_inf: "exponent d \<noteq> 2047 \<Longrightarrow> \<not> is_inf d"
  by (simp add: is_inf_def)

lemma round_to_double:
  assumes "exponent z \<noteq> 2047" and "0 < c" and "n = units z * c"
  shows "mk_double s (round_mag n c) = Double s (exponent z) (fraction z)"
  using assms by (simp add: round_mag_exact mk_double_magnitude)

lemma double_lit_exact:
  assumes "exponent z \<noteq> 2047" and "\<not> sign z" and "0 < q" and "p * 2 ^ 1074 = units z * q"
  shows "double_lit p q = z"
proof -
  have "double_lit p q = Double False (exponent z) (fraction z)"
    unfolding double_lit_def using assms(1,3,4) by (rule round_to_double)
  with assms(2) show ?thesis by (cases z) simp
qed

lemma double_of_nat_exact:
  assumes "exponent z \<noteq> 2047" and "\<not> sign z" and "n * 2 ^ 1074 = units z"
  shows "double_of_nat n = z"
proof -
  have "double_of_nat n = Double False (exponent z) (fraction z)"
    unfolding double_of_nat_def using assms(1,3) by (intro round_to_double) simp_all
  with assms(2) show ?thesis by (cases z) simp
qed

lemma fadd_exact:
  assumes x: "exponent x \<noteq> 2047" and y: "exponent y \<noteq> 2047" and z: "exponent z \<noteq> 2047"
    and sum: "signed_units x + signed_units y = signed_units z" and nz: "units z \<noteq> 0"
  shows "fadd x y = z"
proof -
  let ?i = "signed_units x + signed_units y"
  have i0: "?i \<noteq> 0" using sum nz by (simp add: signed_units_def)
  have neg: "(?i < 0) = sign z" using sum nz by (simp add: signed_units_def)
  have abs: "nat \<bar>?i\<bar> = units z" using sum by (simp add: signed_units_def)
  have "fadd x y = mk_double (sign z) (round_mag (units z) 1)"
    using x y i0 neg abs
    by (simp add: fadd_def finite_not_nan finite_not_inf Let_def)
  also have "\<dots> = Double (sign z) (exponent z) (fraction z)"
    using z by (intro round_to_double) simp_all
  finally show ?thesis by simp
qed

lemma fdiv_exact:
  assumes x: "exponent x \<noteq> 2047" and y: "exponent y \<noteq> 2047" and z: "exponent z \<noteq> 2047"
    and ny: "\<not> is_zero y"
    and quot: "units x * 2 ^ 1074 = units z * units y"
    and sgn: "sign z = (sign x \<noteq> sign y)"
  shows "fdiv x y = z"
proof -
  have pos: "0 < units y" using ny units_eq_0_iff [of y] by simp
  have "fdiv x y = mk_double (sign z) (round_mag (units x * 2 ^ 1074) (units y))"
    using x y ny sgn by (simp add: fdiv_def finite_not_nan finite_not_inf)
  also have "\<dots> = Double (sign z) (exponent z) (fraction z)"
    using z pos quot by (rule round_to_double)
  finally show ?thesis by simp
qed

subsection \<open>Adding to zero and dividing by one\<close>

lemma double_of_nat_0: "double_of_nat 0 = pos_zero"
  by (rule double_of_nat_exact) (simp_all add: pos_zero_def units_def)

lemma double_of_nat_1: "double_of_nat 1 = Double False 1023 0"
  by (rule double_of_nat_exact) (simp_all add: units_def)

lemma double_of_nat_2: "double_of_nat 2 = Double False 1024 0"
  by (rule double_of_nat_exact) (simp_all add: units_def)

lemma is_nan_quiet_nan: "is_nan quiet_nan"
  by (simp add: is_nan_def quiet_nan_def)

lemma is_nan_quieted: "is_nan (quieted d)"
  by (simp add: is_nan_def quieted_def or_eq_0_iff)

lemma quieted_quieted: "quieted (quieted d) = quieted d"
  by (simp add: quieted_def or.assoc)

lemma fadd_zero_left:
  "fadd pos_zero t = (if is_nan t then quieted t else if t = neg_zero then pos_zero else t)"
proof (cases "exponent t = 2047")
  case True
  then have "is_nan t \<or> is_inf t" by (auto simp add: is_nan_def is_inf_def)
  moreover have "\<not> is_nan pos_zero" "\<not> is_inf pos_zero"
    by (simp_all add: is_nan_def is_inf_def pos_zero_def)
  moreover have "t \<noteq> neg_zero" using True by (auto simp add: neg_zero_def)
  ultimately show ?thesis by (auto simp add: fadd_def)
next
  case False
  have z: "exponent pos_zero \<noteq> 2047" by (simp add: pos_zero_def)
  have nn: "\<not> is_nan t" using False by (rule finite_not_nan)
  show ?thesis
  proof (cases "units t = 0")
    case True
    then have "exponent t = 0" "fraction t = 0"
      using units_eq_0_iff [of t] by (simp_all add: is_zero_def)
    then have t: "t = (if sign t then neg_zero else pos_zero)"
      by (cases t) (simp add: neg_zero_def pos_zero_def)
    have "fadd pos_zero t = pos_zero"
      using True False nn
      by (simp add: fadd_def is_nan_def is_inf_def signed_units_def units_def pos_zero_def)
    with t nn show ?thesis by (cases "sign t") simp_all
  next
    case nz: False
    have "signed_units pos_zero + signed_units t = signed_units t"
      by (simp add: signed_units_def units_def pos_zero_def)
    with z False have "fadd pos_zero t = t" using nz by (intro fadd_exact)
    moreover have "t \<noteq> neg_zero" using nz by (auto simp add: neg_zero_def units_def)
    ultimately show ?thesis using nn by simp
  qed
qed

lemma fdiv_by_one:
  "fdiv t (Double False 1023 0) = (if is_nan t then quieted t else t)"
proof -
  let ?one = "Double False 1023 0"
  have one: "exponent ?one \<noteq> 2047" "\<not> is_zero ?one" "\<not> sign ?one" "\<not> is_inf ?one" "\<not> is_nan ?one"
    by (simp_all add: is_zero_def is_inf_def is_nan_def)
  have u1: "units ?one = 2 ^ 1074" by (simp add: units_def)
  show ?thesis
  proof (cases "exponent t = 2047")
    case True
    show ?thesis
    proof (cases "is_nan t")
      case True
      then show ?thesis by (simp add: fdiv_def)
    next
      case False
      with True have inf: "is_inf t" and f0: "fraction t = 0"
        by (auto simp add: is_nan_def is_inf_def)
      have "mk_double (sign t) inf_bits = Double (sign t) 2047 0"
        by (simp add: mk_double_def inf_bits_def)
      also have "\<dots> = t" using True f0 by (cases t) simp
      finally show ?thesis using False inf one
        by (simp add: fdiv_def)
    qed
  next
    case False
    have "units t * 2 ^ 1074 = units t * units ?one" by (simp only: u1)
    with False one have "fdiv t ?one = t" by (intro fdiv_exact) simp_all
    with False show ?thesis by (simp add: finite_not_nan)
  qed
qed

lemma fdiv_one: "fdiv t (double_of_nat 1) = (if is_nan t then quieted t else t)"
  by (simp only: double_of_nat_1 fdiv_by_one)

subsection \<open>Operations whose exact result is representable\<close>

text \<open>
  When the real sum, or the real quotient, of two finite doubles is the value of a finite
  double, the operation has nothing to round: its result is finite and has that value.
\<close>

lemma valof_eq_iff: "valof a = valof b \<longleftrightarrow> signed_units a = signed_units b"
  by (simp add: valof_def)










section \<open>The aggregator as a fold\<close>

lemma sum_loop_eq:
  "sum_loop tot monitors = (foldl fadd tot (map temperature monitors), monitors)"
  by (induction monitors arbitrary: tot) (simp_all add: get_temperature_def)

lemma calculate_average_temperature_eq:
  "calculate_average_temperature monitors =
     (fdiv (foldl fadd pos_zero (map temperature monitors)) (double_of_nat (length monitors)),
      monitors)"
  by (simp add: calculate_average_temperature_def sum_loop_eq)

section \<open>The arithmetic of the driver\<close>

text \<open>
  The literals \<open>25.5\<close>, \<open>18.0\<close> and \<open>21.75\<close> are doubles, and so are the sum
  \<open>43.5\<close> and the quotient of the driver: nothing is rounded on its way.
\<close>

lemma lit_25_5: "double_lit 255 10 = Double False 1027 0x9800000000000"
  by (rule double_lit_exact) (simp_all add: units_def)

lemma lit_18_0: "double_lit 180 10 = Double False 1027 0x2000000000000"
  by (rule double_lit_exact) (simp_all add: units_def)

lemma lit_21_75: "double_lit 2175 100 = Double False 1027 0x5C00000000000"
  by (rule double_lit_exact) (simp_all add: units_def)

lemma add_0_25_5:
  "fadd pos_zero (Double False 1027 0x9800000000000) = Double False 1027 0x9800000000000"
  by (simp add: fadd_zero_left is_nan_def neg_zero_def)

lemma add_25_5_18:
  "fadd (Double False 1027 0x9800000000000) (Double False 1027 0x2000000000000) =
     Double False 1028 0x5C00000000000"
  by (rule fadd_exact) (simp_all add: signed_units_def units_def)

lemma div_43_5_2:
  "fdiv (Double False 1028 0x5C00000000000) (Double False 1024 0) =
     Double False 1027 0x5C00000000000"
  by (rule fdiv_exact) (simp_all add: units_def is_zero_def)

lemma valof_21_75: "valof (Double False 1027 0x5C00000000000) = 87 / 4"
  by (simp add: valof_def signed_units_def units_def)

lemma main_monitors_temperatures:
  "map temperature (fst main_monitors) = [double_lit 255 10, double_lit 180 10]"
  by (simp add: main_monitors_def update_weather_def display_weather_def WeatherMonitor_def)

lemma main_average:
  "fst (calculate_average_temperature (fst main_monitors)) = Double False 1027 0x5C00000000000"
proof -
  have len: "length (fst main_monitors) = 2"
    using arg_cong [OF main_monitors_temperatures, of length] by simp
  show ?thesis
    by (simp only: calculate_average_temperature_eq fst_conv main_monitors_temperatures len
        foldl.simps lit_25_5 lit_18_0 add_0_25_5 add_25_5_18 double_of_nat_2 div_43_5_2)
qed










section \<open>The claims\<close>

subsection \<open>The mean\<close>




subsection \<open>The empty collection\<close>

lemma aggregate_of_nil: "calculate_average_temperature [] = (fdiv pos_zero pos_zero, [])"
  by (simp add: calculate_average_temperature_eq double_of_nat_0)

lemma zero_by_zero: "fdiv pos_zero pos_zero = quiet_nan"
  by (simp add: fdiv_def is_nan_def is_inf_def is_zero_def pos_zero_def)

text \<open>
  Claim C2, as the code has it. Given an empty collection, \<open>calculate_average_temperature\<close>
  signals no error: it returns, and what it returns is the quotient of \<open>0.0\<close> by the
  size \<open>0\<close> converted to double, which is a NaN.
\<close>

theorem average_empty_nan:
  "calculate_average_temperature [] = (fdiv pos_zero (double_of_nat 0), []) \<and>
   is_nan (fdiv pos_zero (double_of_nat 0))"
  by (simp add: calculate_average_temperature_eq double_of_nat_0 zero_by_zero is_nan_quiet_nan)

text \<open>
  Claim C2 as stated fails: it says that on the empty collection no NaN is returned
  silently, and a NaN is what comes back.
\<close>

theorem average_empty_counterexample:
  "\<not> (\<not> is_nan (fst (calculate_average_temperature [])))"
  by (simp add: aggregate_of_nil zero_by_zero is_nan_quiet_nan)

subsection \<open>Reading back what was stored\<close>

text \<open>
  Claim C3. For every station and all values \<open>t\<close>, \<open>h\<close>, \<open>p\<close>: right after
  \<open>update_weather t h p\<close>, \<open>get_temperature\<close> returns \<open>t\<close> itself, the same bit
  pattern, with no rounding and no transformation.
\<close>

theorem temperature_after_update:
  "fst (get_temperature (fst (update_weather t h p (this, cout)))) = t"
  by (simp add: update_weather_def get_temperature_def)

text \<open>
  Claim C4. For every location string, the freshly constructed station holds temperature,
  humidity and pressure \<open>0.0\<close>, so \<open>get_temperature\<close> returns \<open>0.0\<close> before any
  update; \<open>0.0\<close> is the double \<open>+0\<close>, of value zero.
\<close>

theorem fresh_station_zero:
  "temperature (WeatherMonitor loc) = pos_zero \<and>
   humidity (WeatherMonitor loc) = pos_zero \<and>
   pressure (WeatherMonitor loc) = pos_zero \<and>
   fst (get_temperature (WeatherMonitor loc)) = pos_zero \<and>
   valof pos_zero = 0"
  by (simp add: WeatherMonitor_def get_temperature_def valof_def signed_units_def units_def pos_zero_def)

subsection \<open>The driver\<close>

text \<open>
  Claim C5. The driver constructs the stations "New York" and "London", updates the first
  to \<open>(25.5, 60.0, 1013.2)\<close> and the second to \<open>(18.0, 75.0, 1008.5)\<close>, and averages
  the collection of the two: the average it gets is exactly \<open>21.75\<close>, the double that
  the literal \<open>21.75\<close> denotes, of real value \<open>87 / 4\<close>.
\<close>

theorem driver_average:
  "fst (snd main) = double_lit 2175 100 \<and> valof (fst (snd main)) = 21.75 \<and>
   map (\<lambda>m. (location m, temperature m, humidity m, pressure m)) (fst main_monitors) =
     [(''New York'', double_lit 255 10, double_lit 600 10, double_lit 10132 10),
      (''London'', double_lit 180 10, double_lit 750 10, double_lit 10085 10)]"
proof -
  have "fst (snd main) = fst (calculate_average_temperature (fst main_monitors))"
    by (simp add: main_def case_prod_beta)
  then have "fst (snd main) = Double False 1027 0x5C00000000000"
    by (simp only: main_average)
  moreover have "map (\<lambda>m. (location m, temperature m, humidity m, pressure m)) (fst main_monitors) =
     [(''New York'', double_lit 255 10, double_lit 600 10, double_lit 10132 10),
      (''London'', double_lit 180 10, double_lit 750 10, double_lit 10085 10)]"
    by (simp add: main_monitors_def update_weather_def display_weather_def WeatherMonitor_def)
  ultimately show ?thesis
    by (simp only: lit_21_75 valof_21_75) simp
qed

subsection \<open>The mean of one station\<close>

lemma average_singleton:
  "fst (calculate_average_temperature [s]) =
     (if is_nan (temperature s) then quieted (temperature s)
      else if temperature s = neg_zero then pos_zero else temperature s)"
proof -
  let ?t = "temperature s"
  have "double_of_nat (Suc 0) = Double False 1023 0"
    using double_of_nat_1 by simp
  then have avg: "fst (calculate_average_temperature [s]) =
      fdiv (fadd pos_zero ?t) (Double False 1023 0)"
    by (simp add: calculate_average_temperature_eq)
  have z: "\<not> is_nan pos_zero" by (simp add: is_nan_def pos_zero_def)
  show ?thesis
  proof (cases "is_nan ?t")
    case True
    then have "fadd pos_zero ?t = quieted ?t" by (simp add: fadd_zero_left)
    with True show ?thesis by (simp add: avg fdiv_by_one is_nan_quieted quieted_quieted)
  next
    case nn: False
    show ?thesis
    proof (cases "?t = neg_zero")
      case True
      then have "fadd pos_zero ?t = pos_zero" using nn by (simp add: fadd_zero_left)
      with True nn z show ?thesis by (simp add: avg fdiv_by_one)
    next
      case False
      then have "fadd pos_zero ?t = ?t" using nn by (simp add: fadd_zero_left)
      with False nn show ?thesis by (simp add: avg fdiv_by_one)
    qed
  qed
qed

text \<open>
  Claim C6, amended. For every station whose temperature \<open>T\<close> is not a NaN, the average
  over the collection of just that station is \<open>T\<close> itself, except that for \<open>T = -0.0\<close>
  it is \<open>+0.0\<close>; in both cases it compares equal to \<open>T\<close> under \<^verbatim>\<open>==\<close>.
\<close>

theorem singleton_mean:
  "\<not> is_nan (fst (get_temperature s)) \<Longrightarrow>
   fst (calculate_average_temperature [s]) =
     (if fst (get_temperature s) = neg_zero then pos_zero else fst (get_temperature s)) \<and>
   feq (fst (calculate_average_temperature [s])) (fst (get_temperature s))"
proof -
  assume "\<not> is_nan (fst (get_temperature s))"
  then have nn: "\<not> is_nan (temperature s)" by (simp add: get_temperature_def)
  have z: "\<not> is_nan pos_zero" "is_zero pos_zero" "is_zero neg_zero"
    by (simp_all add: is_nan_def is_zero_def pos_zero_def neg_zero_def)
  show ?thesis
  proof (cases "temperature s = neg_zero")
    case True
    with nn z show ?thesis
      by (simp add: average_singleton get_temperature_def feq_def)
  next
    case False
    with nn show ?thesis
      by (simp add: average_singleton get_temperature_def feq_def)
  qed
qed

theorem singleton_mean_witness:
  "\<not> is_nan (fst (get_temperature (fst (update_weather (Double False 1027 0x9800000000000) pos_zero pos_zero (WeatherMonitor ''New York'', []))))) \<and>
   fst (calculate_average_temperature [fst (update_weather (Double False 1027 0x9800000000000) pos_zero pos_zero (WeatherMonitor ''New York'', []))]) =
     Double False 1027 0x9800000000000"
  using singleton_mean [of "fst (update_weather (Double False 1027 0x9800000000000) pos_zero pos_zero (WeatherMonitor ''New York'', []))"]
  by (simp add: get_temperature_def update_weather_def is_nan_def neg_zero_def)

text \<open>
  Claim C6 as stated fails at a station updated to the temperature \<open>-0.0\<close>: the loop
  adds it to the total \<open>+0.0\<close>, the sum is \<open>+0.0\<close>, and the average returned is
  \<open>+0.0\<close>, a double other than the \<open>-0.0\<close> stored.
\<close>

theorem singleton_mean_counterexample:
  "fst (get_temperature (fst (update_weather neg_zero pos_zero pos_zero (WeatherMonitor ''London'', [])))) = neg_zero \<and>
   fst (calculate_average_temperature [fst (update_weather neg_zero pos_zero pos_zero (WeatherMonitor ''London'', []))]) = pos_zero \<and>
   fst (calculate_average_temperature [fst (update_weather neg_zero pos_zero pos_zero (WeatherMonitor ''London'', []))]) \<noteq>
   fst (get_temperature (fst (update_weather neg_zero pos_zero pos_zero (WeatherMonitor ''London'', []))))"
  by (simp add: average_singleton get_temperature_def update_weather_def is_nan_def neg_zero_def
      pos_zero_def)

text \<open>
  A NaN temperature gives a NaN average, and \<^verbatim>\<open>==\<close> holds between no NaN and
  anything.
\<close>

lemma nan_station_average:
  "is_nan (fst (get_temperature s)) \<Longrightarrow>
   is_nan (fst (calculate_average_temperature [s])) \<and>
   \<not> feq (fst (calculate_average_temperature [s])) (fst (get_temperature s))"
  by (simp add: average_singleton get_temperature_def is_nan_quieted feq_def)

subsection \<open>What the calls change and what they leave\<close>

text \<open>
  Claim C7. For every station and all values \<open>t\<close>, \<open>h\<close>, \<open>p\<close>, \<open>update_weather\<close>
  overwrites the three fields temperature, humidity and pressure with them, whatever they
  are (no bound is checked and no input refused), and leaves the location as it was.
\<close>

theorem update_overwrites_readings:
  "fst (update_weather t h p (this, cout)) = this\<lparr>temperature := t, humidity := h, pressure := p\<rparr> \<and>
   temperature (fst (update_weather t h p (this, cout))) = t \<and>
   humidity (fst (update_weather t h p (this, cout))) = h \<and>
   pressure (fst (update_weather t h p (this, cout))) = p \<and>
   location (fst (update_weather t h p (this, cout))) = location this"
  by (simp add: update_weather_def)

text \<open>
  Claim C8. \<open>calculate_average_temperature\<close> has no effect on its input: the vector it
  was given by reference is, after the call, the vector it was before, station by station
  and field by field.
\<close>

theorem average_leaves_monitors:
  "snd (calculate_average_temperature monitors) = monitors"
  by (simp add: calculate_average_temperature_eq)

lemma call_location: "location (fst (call st c)) = location (fst st)"
  by (cases st; cases c) (simp_all add: update_weather_def display_weather_def get_temperature_def)

lemma calls_location: "location (fst (foldl call st cs)) = location (fst st)"
  by (induction cs arbitrary: st) (simp_all add: call_location)

text \<open>
  Claim C9. The location is immutable after construction: after any sequence of calls of
  \<open>update_weather\<close>, \<open>display_weather\<close> and \<open>get_temperature\<close> on a station, in any
  order and with any arguments, its location is the string the constructor was given.
\<close>

theorem location_immutable:
  "location (fst (foldl call (WeatherMonitor loc, cout) calls)) = loc"
  by (simp add: calls_location WeatherMonitor_def)

text \<open>
  Claim C10. The average depends on the temperatures only: two collections of the same
  length whose stations agree one by one on the temperature have the same average,
  whatever their locations, humidities and pressures.
\<close>

theorem average_depends_on_temperatures:
  "length ms = length ms' \<Longrightarrow>
   \<forall>i<length ms. temperature (ms ! i) = temperature (ms' ! i) \<Longrightarrow>
   fst (calculate_average_temperature ms) = fst (calculate_average_temperature ms')"
proof -
  assume len: "length ms = length ms'"
    and tmp: "\<forall>i<length ms. temperature (ms ! i) = temperature (ms' ! i)"
  have "map temperature ms = map temperature ms'"
    using len tmp by (simp add: list_eq_iff_nth_eq)
  then show ?thesis
    using len by (simp add: calculate_average_temperature_eq)
qed

theorem average_depends_on_temperatures_witness:
  "length [WeatherMonitor ''New York''] =
     length [(WeatherMonitor ''London'')\<lparr>humidity := neg_zero, pressure := quiet_nan\<rparr>] \<and>
   temperature ([WeatherMonitor ''New York''] ! 0) =
     temperature ([(WeatherMonitor ''London'')\<lparr>humidity := neg_zero, pressure := quiet_nan\<rparr>] ! 0) \<and>
   fst (calculate_average_temperature [WeatherMonitor ''New York'']) =
     fst (calculate_average_temperature
           [(WeatherMonitor ''London'')\<lparr>humidity := neg_zero, pressure := quiet_nan\<rparr>])"
proof -
  let ?ms = "[WeatherMonitor ''New York'']"
  let ?ms' = "[(WeatherMonitor ''London'')\<lparr>humidity := neg_zero, pressure := quiet_nan\<rparr>]"
  have h1: "length ?ms = length ?ms'"
    by simp
  have h2: "\<forall>i<length ?ms. temperature (?ms ! i) = temperature (?ms' ! i)"
    by (simp add: WeatherMonitor_def)
  have "temperature (?ms ! 0) = temperature (?ms' ! 0)"
    using h2 by simp
  with average_depends_on_temperatures [OF h1 h2] h1 show ?thesis
    by blast
qed

end
